theory Spec2Isabelle
  imports Complex_Main "HOL-Library.Word"
begin

unbundle bit_operations_syntax

section \<open>GrMSAAPathRenderer.cpp: path data\<close>

text \<open>
  \<open>SkPoint\<close> values are only copied by the code below, never computed on, so the type of
  points is a parameter \<open>'p\<close>. \<open>GrColor\<close> and \<open>SkColor\<close> are 32-bit values, vertex indices
  are \<open>uint16_t\<close>.
\<close>

type_synonym GrColor = "32 word"
type_synonym SkColor = "32 word"

text \<open>
  One value of \<open>Verb\<close> is one result of \<open>SkPath::Iter::next(pts)\<close> before \<open>kDone_Verb\<close>,
  with the points the code reads from \<open>pts\<close>. \<open>SkAutoConicToQuads\<close> and
  \<open>GrPathUtils::convertCubicToQuads\<close> are not part of the two source files; both
  \<open>ComputeWorstCasePointCount\<close> and \<open>createGeom\<close> call them with the same arguments
  (\<open>pts\<close>, the weight, \<open>kTolerance\<close>), so their results travel with the verb:
  a conic carries the array returned by \<open>computeQuads\<close> and the value of \<open>countQuads()\<close>,
  a cubic carries the array \<open>quadPts\<close> filled by \<open>convertCubicToQuads\<close>.
\<close>

datatype 'p Verb =
    kMove_Verb 'p
  | kLine_Verb 'p 'p
  | kQuad_Verb 'p 'p 'p
  | kConic_Verb "'p list" int
  | kCubic_Verb "'p list"
  | kClose_Verb

datatype FillType =
    kWinding_FillType
  | kEvenOdd_FillType
  | kInverseWinding_FillType
  | kInverseEvenOdd_FillType
  | kOther_FillType int

record SkRect =
  fLeft :: real
  fTop :: real
  fRight :: real
  fBottom :: real

text \<open>
  A path as the renderer sees it: the verbs its iterator yields (constructed with
  \<open>forceClose = true\<close> both times), its fill type and its bounds.
  \<open>kOther_FillType\<close> stands for any value of the enumeration's underlying integer
  that is none of the four enumerators.
\<close>

record 'p SkPath =
  verbs :: "'p Verb list"
  getFillType :: FillType
  getBounds :: SkRect

section \<open>Worst-case vertex counts\<close>

text \<open>
  \<open>linePointCount\<close> and \<open>quadPointCount\<close> are C++ \<open>int\<close>, 32 bits wide. An addition that
  leaves the range wraps around in two's complement (what the compiled code does;
  the language leaves it undefined). \<open>int32 x\<close> is the value a 32-bit \<open>int\<close> holds after
  being assigned the mathematical result \<open>x\<close>.
\<close>

definition int32 :: "int \<Rightarrow> int" where
  "int32 x = (x + 2147483648) mod 4294967296 - 2147483648"

text \<open>
  The accumulator of the loop in \<open>ComputeWorstCasePointCount\<close>:
  \<open>(*subpaths, linePointCount, quadPointCount, first)\<close>.
  The case \<open>kConic_Verb\<close> has no \<open>break\<close> and runs on into \<open>kQuad_Verb\<close>.
  \<open>count / 3\<close> is on a non-negative \<open>count\<close>, where C++ division and \<open>div\<close> agree.
  \<open>*subpaths\<close> grows by at most one per verb, and a path holds fewer than \<open>2^31\<close> verbs
  (its verb count is an \<open>int\<close>), so that counter never leaves the range and is left
  unwrapped.
\<close>

fun worstCase_verb :: "int \<times> int \<times> int \<times> bool \<Rightarrow> 'p Verb \<Rightarrow> int \<times> int \<times> int \<times> bool" where
  "worstCase_verb (subpaths, linePointCount, quadPointCount, first) (kLine_Verb p0 p1) =
     (subpaths, int32 (linePointCount + 1), quadPointCount, False)"
| "worstCase_verb (subpaths, linePointCount, quadPointCount, first) (kConic_Verb quadPts countQuads) =
     (subpaths,
      int32 (int32 (linePointCount + countQuads) + 1),
      int32 (int32 (quadPointCount + int32 (3 * countQuads)) + 3),
      False)"
| "worstCase_verb (subpaths, linePointCount, quadPointCount, first) (kQuad_Verb p0 p1 p2) =
     (subpaths, int32 (linePointCount + 1), int32 (quadPointCount + 3), False)"
| "worstCase_verb (subpaths, linePointCount, quadPointCount, first) (kCubic_Verb quadPts) =
     (let count = int (length quadPts)
      in (subpaths, int32 (linePointCount + count div 3), int32 (quadPointCount + count), False))"
| "worstCase_verb (subpaths, linePointCount, quadPointCount, first) (kMove_Verb p0) =
     ((if \<not> first then subpaths + 1 else subpaths), int32 (linePointCount + 1),
      quadPointCount, False)"
| "worstCase_verb (subpaths, linePointCount, quadPointCount, first) kClose_Verb =
     (subpaths, linePointCount, quadPointCount, False)"

definition ComputeWorstCasePointCount :: "'p SkPath \<Rightarrow> int \<times> int \<times> int" where
  "ComputeWorstCasePointCount path =
     (case foldl worstCase_verb (1, 0, 0, True) (verbs path) of
        (subpaths, linePointCount, quadPointCount, first) \<Rightarrow>
          (subpaths, linePointCount, quadPointCount))"

section \<open>Geometry construction\<close>

text \<open>
  \<open>MSAALineVertices\<close> and \<open>MSAAQuadVertices\<close> have the same shape and differ in the vertex
  type: a buffer of vertices and a buffer of indices, each with a write cursor. The
  cursor is the length of the list, so \<open>nextVertex - vertices\<close> is \<open>length (vertices s)\<close>.
  A line vertex is \<open>(fPosition, fColor)\<close>, a quad vertex \<open>(fPosition, fUV, fColor)\<close>.
\<close>

type_synonym 'p LineVertex = "'p \<times> SkColor"
type_synonym 'p QuadVertex = "'p \<times> (real \<times> real) \<times> SkColor"

record 'v MSAAVertices =
  vertices :: "'v list"
  indices :: "16 word list"

type_synonym 'p MSAALineVertices = "'p LineVertex MSAAVertices"
type_synonym 'p MSAAQuadVertices = "'p QuadVertex MSAAVertices"

definition append_contour_edge_indices ::
  "16 word \<Rightarrow> 16 word \<Rightarrow> 'p MSAALineVertices \<Rightarrow> 'p MSAALineVertices" where
  "append_contour_edge_indices fanCenterIdx edgeV0Idx lines =
     lines\<lparr>indices := indices lines @ [fanCenterIdx, edgeV0Idx, edgeV0Idx + 1]\<rparr>"

text \<open>
  \<open>add_quad\<close> reads \<open>pts[0]\<close>, \<open>pts[1]\<close>, \<open>pts[2]\<close>; the three points are passed as a triple.
  \<open>prevIdx\<close> is the cursor minus one, cast to \<open>uint16_t\<close>, and compared as an integer.
\<close>

definition add_quad ::
  "'p MSAALineVertices \<times> 'p MSAAQuadVertices \<Rightarrow> 'p \<times> 'p \<times> 'p \<Rightarrow> SkColor \<Rightarrow> bool \<Rightarrow> 16 word
   \<Rightarrow> 'p MSAALineVertices \<times> 'p MSAAQuadVertices" where
  "add_quad lq pts color indexed subpathLineIdxStart =
     (case (lq, pts) of ((lines, quads), (pts0, pts1, pts2)) \<Rightarrow>
        let prevIdx = (word_of_int (int (length (vertices lines)) - 1) :: 16 word);
            lines1 = (if indexed \<and> uint prevIdx > uint subpathLineIdxStart
                      then append_contour_edge_indices subpathLineIdxStart prevIdx lines
                      else lines);
            lines2 = lines1\<lparr>vertices := vertices lines1 @ [(pts2, color)]\<rparr>;
            quads1 = quads\<lparr>vertices := vertices quads @
                       [(pts0, (0, 0), color), (pts1, (1/2, 0), color), (pts2, (1, 1), color)]\<rparr>;
            offset = (word_of_int (int (length (vertices quads1))) :: 16 word) - 3;
            quads2 = (if indexed
                      then quads1\<lparr>indices := indices quads1 @ [offset, offset + 1, offset + 2]\<rparr>
                      else quads1)
        in (lines2, quads2))"

text \<open>
  Reading three consecutive points at offset \<open>i\<close> of an array returned by one of the
  two converters. A read past the end of the array is undefined in the source; the
  model returns \<open>None\<close> there.
\<close>

definition pts_at :: "'p list \<Rightarrow> nat \<Rightarrow> ('p \<times> 'p \<times> 'p) option" where
  "pts_at quadPts i =
     (if i + 2 < length quadPts then Some (quadPts ! i, quadPts ! (i + 1), quadPts ! (i + 2))
      else None)"

text \<open>
  The conic loop \<open>for (int i = 0; i < converter.countQuads(); ++i) add_quad(quadPts + i * 2)\<close>:
  the first argument counts the iterations left.
\<close>

fun conic_quads ::
  "nat \<Rightarrow> nat \<Rightarrow> 'p list \<Rightarrow> SkColor \<Rightarrow> bool \<Rightarrow> 16 word
   \<Rightarrow> 'p MSAALineVertices \<times> 'p MSAAQuadVertices
   \<Rightarrow> ('p MSAALineVertices \<times> 'p MSAAQuadVertices) option" where
  "conic_quads 0 i quadPts color isIndexed subpathIdxStart lq = Some lq"
| "conic_quads (Suc k) i quadPts color isIndexed subpathIdxStart lq =
     (case pts_at quadPts (i * 2) of
        None \<Rightarrow> None
      | Some pts \<Rightarrow>
          conic_quads k (i + 1) quadPts color isIndexed subpathIdxStart
            (add_quad lq pts color isIndexed subpathIdxStart))"

text \<open>The cubic loop \<open>for (int i = 0; i < count; i += 3) add_quad(&quadPts[i])\<close>.\<close>

function cubic_quads ::
  "nat \<Rightarrow> 'p list \<Rightarrow> SkColor \<Rightarrow> bool \<Rightarrow> 16 word
   \<Rightarrow> 'p MSAALineVertices \<times> 'p MSAAQuadVertices
   \<Rightarrow> ('p MSAALineVertices \<times> 'p MSAAQuadVertices) option" where
  "cubic_quads i quadPts color isIndexed subpathIdxStart lq =
     (if i < length quadPts
      then (case pts_at quadPts i of
              None \<Rightarrow> None
            | Some pts \<Rightarrow>
                cubic_quads (i + 3) quadPts color isIndexed subpathIdxStart
                  (add_quad lq pts color isIndexed subpathIdxStart))
      else Some lq)"
  by pat_completeness auto
termination
  by (relation "measure (\<lambda>(i, quadPts, color, isIndexed, subpathIdxStart, lq). length quadPts - i)")
     auto

text \<open>
  One turn of the loop of \<open>createGeom\<close>. The state is \<open>(first, subpathIdxStart, lines, quads)\<close>.
\<close>

fun createGeom_verb ::
  "SkColor \<Rightarrow> bool \<Rightarrow> bool \<times> 16 word \<times> 'p MSAALineVertices \<times> 'p MSAAQuadVertices \<Rightarrow> 'p Verb
   \<Rightarrow> (bool \<times> 16 word \<times> 'p MSAALineVertices \<times> 'p MSAAQuadVertices) option" where
  "createGeom_verb color isIndexed (first, subpathIdxStart, lines, quads) (kMove_Verb pts0) =
     (let subpathIdxStart1 =
            (if \<not> first then (word_of_int (int (length (vertices lines))) :: 16 word)
             else subpathIdxStart)
      in Some (False, subpathIdxStart1,
               lines\<lparr>vertices := vertices lines @ [(pts0, color)]\<rparr>, quads))"
| "createGeom_verb color isIndexed (first, subpathIdxStart, lines, quads) (kLine_Verb pts0 pts1) =
     (let prevIdx = (word_of_int (int (length (vertices lines)) - 1) :: 16 word);
          lines1 = (if isIndexed \<and> prevIdx > subpathIdxStart
                    then append_contour_edge_indices subpathIdxStart prevIdx lines
                    else lines)
      in Some (False, subpathIdxStart,
               lines1\<lparr>vertices := vertices lines1 @ [(pts1, color)]\<rparr>, quads))"
| "createGeom_verb color isIndexed (first, subpathIdxStart, lines, quads) (kConic_Verb quadPts countQuads) =
     (case conic_quads (nat countQuads) 0 quadPts color isIndexed subpathIdxStart (lines, quads) of
        None \<Rightarrow> None
      | Some (lines1, quads1) \<Rightarrow> Some (False, subpathIdxStart, lines1, quads1))"
| "createGeom_verb color isIndexed (first, subpathIdxStart, lines, quads) (kQuad_Verb pts0 pts1 pts2) =
     (case add_quad (lines, quads) (pts0, pts1, pts2) color isIndexed subpathIdxStart of
        (lines1, quads1) \<Rightarrow> Some (False, subpathIdxStart, lines1, quads1))"
| "createGeom_verb color isIndexed (first, subpathIdxStart, lines, quads) (kCubic_Verb quadPts) =
     (case cubic_quads 0 quadPts color isIndexed subpathIdxStart (lines, quads) of
        None \<Rightarrow> None
      | Some (lines1, quads1) \<Rightarrow> Some (False, subpathIdxStart, lines1, quads1))"
| "createGeom_verb color isIndexed (first, subpathIdxStart, lines, quads) kClose_Verb =
     Some (False, subpathIdxStart, lines, quads)"

fun createGeom_loop ::
  "SkColor \<Rightarrow> bool \<Rightarrow> bool \<times> 16 word \<times> 'p MSAALineVertices \<times> 'p MSAAQuadVertices \<Rightarrow> 'p Verb list
   \<Rightarrow> (bool \<times> 16 word \<times> 'p MSAALineVertices \<times> 'p MSAAQuadVertices) option" where
  "createGeom_loop color isIndexed st [] = Some st"
| "createGeom_loop color isIndexed st (verb # rest) =
     (case createGeom_verb color isIndexed st verb of
        None \<Rightarrow> None
      | Some st1 \<Rightarrow> createGeom_loop color isIndexed st1 rest)"

text \<open>
  \<open>createGeom\<close> always returns \<open>true\<close>; the result is the pair of updated buffers, or \<open>None\<close>
  when a converter's array was read past its end. The view matrix argument \<open>m\<close> is not
  used by the source function and is left out.
\<close>

definition createGeom ::
  "'p MSAALineVertices \<times> 'p MSAAQuadVertices \<Rightarrow> 'p SkPath \<Rightarrow> SkColor \<Rightarrow> bool
   \<Rightarrow> ('p MSAALineVertices \<times> 'p MSAAQuadVertices) option" where
  "createGeom lq path color isIndexed =
     (case lq of (lines, quads) \<Rightarrow>
        (case createGeom_loop color isIndexed
                (True, word_of_int (int (length (vertices lines))), lines, quads) (verbs path) of
           None \<Rightarrow> None
         | Some (first, subpathIdxStart, lines1, quads1) \<Rightarrow> Some (lines1, quads1)))"

text \<open>
  What the two converters guarantee about their results: \<open>countQuads()\<close> is not negative
  and the conic array holds \<open>2 * countQuads() + 1\<close> points (consecutive quads share an end
  point), and \<open>convertCubicToQuads\<close> appends three points per quad. Both converters are
  outside the two source files, so the guarantee is a hypothesis of the theorems that
  need it.
\<close>

fun converters_ok :: "'p Verb \<Rightarrow> bool" where
  "converters_ok (kConic_Verb quadPts countQuads) =
     (0 \<le> countQuads \<and> int (length quadPts) = 2 * countQuads + 1)"
| "converters_ok (kCubic_Verb quadPts) = (length quadPts mod 3 = 0)"
| "converters_ok (kMove_Verb p0) = True"
| "converters_ok (kLine_Verb p0 p1) = True"
| "converters_ok (kQuad_Verb p0 p1 p2) = True"
| "converters_ok kClose_Verb = True"



definition wLine :: "int \<times> int \<times> int \<times> bool \<Rightarrow> int" where
  "wLine w = fst (snd w)"

definition wQuad :: "int \<times> int \<times> int \<times> bool \<Rightarrow> int" where
  "wQuad w = fst (snd (snd w))"


text \<open>
  What one verb adds to \<open>linePointCount\<close> and to \<open>quadPointCount\<close>, as mathematical
  integers, read off the branches of the switch. The sums over a path are the totals
  the two counters hold when no addition wraps.
\<close>

fun linePoints :: "'p Verb \<Rightarrow> int" where
  "linePoints (kLine_Verb p0 p1) = 1"
| "linePoints (kConic_Verb quadPts countQuads) = countQuads + 1"
| "linePoints (kQuad_Verb p0 p1 p2) = 1"
| "linePoints (kCubic_Verb quadPts) = int (length quadPts) div 3"
| "linePoints (kMove_Verb p0) = 1"
| "linePoints kClose_Verb = 0"

fun quadPoints :: "'p Verb \<Rightarrow> int" where
  "quadPoints (kLine_Verb p0 p1) = 0"
| "quadPoints (kConic_Verb quadPts countQuads) = 3 * countQuads + 3"
| "quadPoints (kQuad_Verb p0 p1 p2) = 3"
| "quadPoints (kCubic_Verb quadPts) = int (length quadPts)"
| "quadPoints (kMove_Verb p0) = 0"
| "quadPoints kClose_Verb = 0"


fun isMove :: "'p Verb \<Rightarrow> bool" where
  "isMove (kMove_Verb p0) = True"
| "isMove (kLine_Verb p0 p1) = False"
| "isMove (kQuad_Verb p0 p1 p2) = False"
| "isMove (kConic_Verb quadPts countQuads) = False"
| "isMove (kCubic_Verb quadPts) = False"
| "isMove kClose_Verb = False"

section \<open>MSAAPathOp: creation and merging\<close>

text \<open>\<open>kMaxIndexedVertexCnt = SK_MaxU16 / 3\<close>, with \<open>SK_MaxU16 = 65535\<close>.\<close>

definition kMaxIndexedVertexCnt :: int where
  "kMaxIndexedVertexCnt = 65535 div 3"

text \<open>
  The fields of \<open>MSAAPathOp\<close>, with the two pieces of base-class state that
  \<open>onCombineIfPossible\<close> reads: the bounds set by \<open>setBounds\<close> and the pipeline, which the
  framework installs after \<open>Make\<close> (\<open>None\<close> until then). The view matrix is a value of a type
  \<open>'m\<close>; \<open>cheapEqualTo\<close>, a comparison of the stored representation, is equality on \<open>'m\<close>.
  The two stored counts are the values \<open>ComputeWorstCasePointCount\<close> returned.
\<close>

record ('p, 'm, 'pl) MSAAPathOp =
  fPaths :: "(GrColor \<times> 'p SkPath) list"
  fViewMatrix :: 'm
  fMaxLineVertices :: int
  fMaxQuadVertices :: int
  fIsIndexed :: bool
  bounds :: SkRect
  pipeline :: "'pl option"

definition Make ::
  "GrColor \<Rightarrow> 'p SkPath \<Rightarrow> 'm \<Rightarrow> SkRect \<Rightarrow> ('p, 'm, 'pl) MSAAPathOp option" where
  "Make color path viewMatrix devBounds =
     (case ComputeWorstCasePointCount path of
        (contourCount, maxLineVertices, maxQuadVertices) \<Rightarrow>
          let isIndexed = contourCount > 1
          in if isIndexed \<and>
                (maxLineVertices > kMaxIndexedVertexCnt \<or> maxQuadVertices > kMaxIndexedVertexCnt)
             then None
             else Some \<lparr>fPaths = [(color, path)], fViewMatrix = viewMatrix,
                        fMaxLineVertices = maxLineVertices, fMaxQuadVertices = maxQuadVertices,
                        fIsIndexed = isIndexed, bounds = devBounds, pipeline = None\<rparr>)"

text \<open>
  Modelled from the spec: \<open>GrOp::joinBounds\<close> is not in the two source files; the spec
  says that on a merge the bounds are unioned. The union of two rectangles is the
  smallest rectangle holding both.
\<close>

definition joinBounds :: "SkRect \<Rightarrow> SkRect \<Rightarrow> SkRect" where
  "joinBounds a b =
     \<lparr>fLeft = min (fLeft a) (fLeft b), fTop = min (fTop a) (fTop b),
      fRight = max (fRight a) (fRight b), fBottom = max (fBottom a) (fBottom b)\<rparr>"

text \<open>
  \<open>onCombineIfPossible\<close> changes \<open>this\<close> in place and returns a flag: the result is the
  flag and \<open>this\<close> after the call. \<open>GrPipeline::CanCombine\<close> is outside the source files
  and is the parameter \<open>CanCombine\<close> (the capabilities are part of it).
\<close>

definition onCombineIfPossible ::
  "('pl option \<Rightarrow> SkRect \<Rightarrow> 'pl option \<Rightarrow> SkRect \<Rightarrow> bool)
   \<Rightarrow> ('p, 'm, 'pl) MSAAPathOp \<Rightarrow> ('p, 'm, 'pl) MSAAPathOp
   \<Rightarrow> bool \<times> ('p, 'm, 'pl) MSAAPathOp" where
  "onCombineIfPossible CanCombine this that =
     (if \<not> CanCombine (pipeline this) (bounds this) (pipeline that) (bounds that)
      then (False, this)
      else if \<not> (fViewMatrix this = fViewMatrix that) then (False, this)
      else if (fMaxLineVertices this + fMaxLineVertices that) > kMaxIndexedVertexCnt \<or>
              (fMaxQuadVertices this + fMaxQuadVertices that) > kMaxIndexedVertexCnt
      then (False, this)
      else (True, this\<lparr>fPaths := fPaths this @ fPaths that,
                       bounds := joinBounds (bounds this) (bounds that),
                       fIsIndexed := True,
                       fMaxLineVertices := fMaxLineVertices this + fMaxLineVertices that,
                       fMaxQuadVertices := fMaxQuadVertices this + fMaxQuadVertices that\<rparr>))"

section \<open>GrMSAAPathRenderer: the pass plan and the draws\<close>

record 'p GrShape =
  inverseFilled :: bool
  knownToBeConvex :: bool
  asPath :: "'p SkPath"

definition single_pass_shape :: "'p GrShape \<Rightarrow> bool" where
  "single_pass_shape shape =
     (if \<not> inverseFilled shape then knownToBeConvex shape else False)"

datatype StencilSupport = kNoRestriction_StencilSupport | kStencilOnly_StencilSupport

definition onGetStencilSupport :: "'p GrShape \<Rightarrow> StencilSupport" where
  "onGetStencilSupport shape =
     (if single_pass_shape shape then kNoRestriction_StencilSupport
      else kStencilOnly_StencilSupport)"

text \<open>
  The stencil settings a pass can point to: the caller's \<open>userStencilSettings\<close> and the
  seven settings objects of \<open>GrPathStencilSettings.h\<close>, by name.
\<close>

datatype StencilSettings =
    userStencilSettings
  | gDirectToStencil
  | gEOStencilPass
  | gEOColorPass
  | gInvEOColorPass
  | gWindStencilSeparateWithWrap
  | gWindColorPass
  | gInvWindColorPass

text \<open>
  The local variables that the first half of \<open>internalDrawPath\<close> sets: \<open>passCount\<close>, the
  entries of \<open>passes\<close> that were assigned, \<open>reverse\<close> and \<open>lastPassIsBounds\<close>.
\<close>

record PassPlan =
  passCount :: int
  passes :: "StencilSettings list"
  reverse :: bool
  lastPassIsBounds :: bool

text \<open>
  \<open>UnknownPathFill\<close> is the \<open>default\<close> branch: \<open>SkDEBUGFAIL("Unknown path fFill!")\<close>, which aborts
  a debug build, followed by \<open>return false\<close>.
\<close>

datatype DrawError = UnknownPathFill

text \<open>
  The two stencil-then-cover cases. The inverse fill types set \<open>reverse\<close> and run on into
  the case of the plain fill type, so each case is a function of \<open>reverse\<close>.
\<close>

definition evenOdd_plan :: "bool \<Rightarrow> bool \<Rightarrow> PassPlan" where
  "evenOdd_plan reverse0 stencilOnly =
     (if stencilOnly
      then \<lparr>passCount = 1, passes = [gEOStencilPass], reverse = reverse0,
            lastPassIsBounds = False\<rparr>
      else \<lparr>passCount = 2,
            passes = [gEOStencilPass, if reverse0 then gInvEOColorPass else gEOColorPass],
            reverse = reverse0, lastPassIsBounds = True\<rparr>)"

definition winding_plan :: "bool \<Rightarrow> bool \<Rightarrow> PassPlan" where
  "winding_plan reverse0 stencilOnly =
     (if stencilOnly
      then \<lparr>passCount = 1, passes = [gWindStencilSeparateWithWrap], reverse = reverse0,
            lastPassIsBounds = False\<rparr>
      else \<lparr>passCount = 2,
            passes = [gWindStencilSeparateWithWrap,
                      if reverse0 then gInvWindColorPass else gWindColorPass],
            reverse = reverse0, lastPassIsBounds = True\<rparr>)"

definition plan_passes :: "'p GrShape \<Rightarrow> bool \<Rightarrow> DrawError + PassPlan" where
  "plan_passes shape stencilOnly =
     (if single_pass_shape shape
      then Inr \<lparr>passCount = 1,
                passes = [if stencilOnly then gDirectToStencil else userStencilSettings],
                reverse = False, lastPassIsBounds = False\<rparr>
      else (case getFillType (asPath shape) of
              kInverseEvenOdd_FillType \<Rightarrow> Inr (evenOdd_plan True stencilOnly)
            | kEvenOdd_FillType \<Rightarrow> Inr (evenOdd_plan False stencilOnly)
            | kInverseWinding_FillType \<Rightarrow> Inr (winding_plan True stencilOnly)
            | kWinding_FillType \<Rightarrow> Inr (winding_plan False stencilOnly)
            | kOther_FillType v \<Rightarrow> Inl UnknownPathFill))"

text \<open>
  \<open>SkMatrix\<close> is outside the source files. The four operations the renderer calls are
  parameters: \<open>hasPerspective\<close>, \<open>invert\<close> (\<open>None\<close> when it returns \<open>false\<close>), \<open>mapRect\<close> and the
  identity \<open>SkMatrix::I()\<close>.
\<close>

record 'm SkMatrixOps =
  hasPerspective :: "'m \<Rightarrow> bool"
  invert :: "'m \<Rightarrow> 'm option"
  mapRect :: "'m \<Rightarrow> SkRect \<Rightarrow> SkRect"
  SkMatrix_I :: 'm

text \<open>
  An op handed to \<open>addDrawOp\<close>: the rectangle of \<open>GrRectOpFactory::MakeNonAAFill(color, viewM,
  bounds, nullptr, &localMatrix)\<close> or a path op. A draw is the op, the user stencil of its
  pipeline builder and whether \<open>setDisableColorXPFactory\<close> was called.
\<close>

datatype ('p, 'm, 'pl) GrDrawOp =
    NonAAFill GrColor 'm SkRect 'm
  | PathOp "('p, 'm, 'pl) MSAAPathOp"

type_synonym ('p, 'm, 'pl) Draw = "('p, 'm, 'pl) GrDrawOp \<times> StencilSettings \<times> bool"

text \<open>
  The rectangle of the cover pass: \<open>(viewM, bounds, localMatrix)\<close>, or \<open>None\<close> where the source
  returns \<open>false\<close>. \<open>invert\<close> is only called when the first operand of \<open>&&\<close> is true.
\<close>

definition cover_rect ::
  "'m SkMatrixOps \<Rightarrow> bool \<Rightarrow> 'm \<Rightarrow> 'p SkPath \<Rightarrow> SkRect \<Rightarrow> ('m \<times> SkRect \<times> 'm) option" where
  "cover_rect ops reverse0 viewMatrix path devBounds =
     (let viewM = (if reverse0 \<and> hasPerspective ops viewMatrix then SkMatrix_I ops
                   else viewMatrix)
      in if reverse0
         then (case (if \<not> hasPerspective ops viewMatrix then invert ops viewMatrix else None) of
                 Some vmi \<Rightarrow> Some (viewM, mapRect ops vmi devBounds, SkMatrix_I ops)
               | None \<Rightarrow>
                   (case invert ops viewMatrix of
                      None \<Rightarrow> None
                    | Some localMatrix \<Rightarrow> Some (viewM, devBounds, localMatrix)))
         else Some (viewM, getBounds path, SkMatrix_I ops))"

text \<open>The body of the loop over the passes, for pass \<open>p\<close>.\<close>

definition draw_pass ::
  "'m SkMatrixOps \<Rightarrow> GrColor \<Rightarrow> 'm \<Rightarrow> 'p SkPath \<Rightarrow> SkRect \<Rightarrow> PassPlan \<Rightarrow> nat
   \<Rightarrow> ('p, 'm, 'pl) Draw option" where
  "draw_pass ops color viewMatrix path devBounds plan p =
     (if lastPassIsBounds plan \<and> int p = passCount plan - 1
      then (case cover_rect ops (reverse plan) viewMatrix path devBounds of
              None \<Rightarrow> None
            | Some (viewM, rect, localMatrix) \<Rightarrow>
                Some (NonAAFill color viewM rect localMatrix, passes plan ! p, False))
      else (case Make color path viewMatrix devBounds of
              None \<Rightarrow> None
            | Some op \<Rightarrow> Some (PathOp op, passes plan ! p, passCount plan > 1)))"

text \<open>
  The loop: the draws added so far stay added when a later pass returns \<open>false\<close>.
\<close>

fun draw_passes ::
  "'m SkMatrixOps \<Rightarrow> GrColor \<Rightarrow> 'm \<Rightarrow> 'p SkPath \<Rightarrow> SkRect \<Rightarrow> PassPlan \<Rightarrow> nat list
   \<Rightarrow> ('p, 'm, 'pl) Draw list \<Rightarrow> bool \<times> ('p, 'm, 'pl) Draw list" where
  "draw_passes ops color viewMatrix path devBounds plan [] added = (True, added)"
| "draw_passes ops color viewMatrix path devBounds plan (p # ps) added =
     (case draw_pass ops color viewMatrix path devBounds plan p of
        None \<Rightarrow> (False, added)
      | Some d \<Rightarrow> draw_passes ops color viewMatrix path devBounds plan ps (added @ [d]))"

text \<open>
  \<open>internalDrawPath\<close>: the returned flag and the draws added to the render target context.
  \<open>devBounds\<close> is the result of \<open>GetPathDevBounds\<close>, which is outside the source files.
\<close>

definition internalDrawPath ::
  "'m SkMatrixOps \<Rightarrow> GrColor \<Rightarrow> 'm \<Rightarrow> 'p GrShape \<Rightarrow> bool \<Rightarrow> SkRect
   \<Rightarrow> DrawError + (bool \<times> ('p, 'm, 'pl) Draw list)" where
  "internalDrawPath ops color viewMatrix shape stencilOnly devBounds =
     (case plan_passes shape stencilOnly of
        Inl e \<Rightarrow> Inl e
      | Inr plan \<Rightarrow>
          Inr (draw_passes ops color viewMatrix (asPath shape) devBounds plan
                 [0 ..< nat (passCount plan)] []))"

section \<open>GrCustomXfermode.cpp: blend modes\<close>

text \<open>
  Modelled from the spec: the header declaring \<open>SkBlendMode\<close> is not in the two source
  files. The spec describes the advanced modes as one contiguous range of the enumeration
  that follows the coefficient (Porter-Duff) modes. The enumerators are listed in the
  header's order; the static assertions of \<open>hw_blend_equation\<close> name the fourteen modes from
  \<open>kOverlay\<close> to \<open>kLuminosity\<close> in this order, each at the same distance from its blend
  equation. \<open>mode_int\<close> is the cast \<open>(int)mode\<close>.
\<close>

datatype SkBlendMode =
    kClear | kSrc | kDst | kSrcOver | kDstOver | kSrcIn | kDstIn | kSrcOut | kDstOut
  | kSrcATop | kDstATop | kXor | kPlus | kModulate | kScreen
  | kOverlay | kDarken | kLighten | kColorDodge | kColorBurn | kHardLight | kSoftLight
  | kDifference | kExclusion | kMultiply
  | kHue | kSaturation | kColor | kLuminosity

fun mode_int :: "SkBlendMode \<Rightarrow> int" where
  "mode_int kClear = 0"
| "mode_int kSrc = 1"
| "mode_int kDst = 2"
| "mode_int kSrcOver = 3"
| "mode_int kDstOver = 4"
| "mode_int kSrcIn = 5"
| "mode_int kDstIn = 6"
| "mode_int kSrcOut = 7"
| "mode_int kDstOut = 8"
| "mode_int kSrcATop = 9"
| "mode_int kDstATop = 10"
| "mode_int kXor = 11"
| "mode_int kPlus = 12"
| "mode_int kModulate = 13"
| "mode_int kScreen = 14"
| "mode_int kOverlay = 15"
| "mode_int kDarken = 16"
| "mode_int kLighten = 17"
| "mode_int kColorDodge = 18"
| "mode_int kColorBurn = 19"
| "mode_int kHardLight = 20"
| "mode_int kSoftLight = 21"
| "mode_int kDifference = 22"
| "mode_int kExclusion = 23"
| "mode_int kMultiply = 24"
| "mode_int kHue = 25"
| "mode_int kSaturation = 26"
| "mode_int kColor = 27"
| "mode_int kLuminosity = 28"

definition kLastCoeffMode :: SkBlendMode where
  "kLastCoeffMode = kScreen"

definition kLastSeparableMode :: SkBlendMode where
  "kLastSeparableMode = kMultiply"

definition kLastMode :: SkBlendMode where
  "kLastMode = kLuminosity"

definition IsSupportedMode :: "SkBlendMode \<Rightarrow> bool" where
  "IsSupportedMode mode =
     (mode_int mode > mode_int kLastCoeffMode \<and> mode_int mode \<le> mode_int kLastMode)"

text \<open>
  The two named sub-ranges of the enumeration: the coefficient modes, up to
  \<open>kLastCoeffMode\<close>, and the separable modes, up to \<open>kLastSeparableMode\<close> (the upper end of
  the range \<open>TestCreate\<close> draws its modes from).
\<close>

definition isCoeffMode :: "SkBlendMode \<Rightarrow> bool" where
  "isCoeffMode mode = (mode_int mode \<le> mode_int kLastCoeffMode)"

definition isSeparableMode :: "SkBlendMode \<Rightarrow> bool" where
  "isSeparableMode mode = (mode_int mode \<le> mode_int kLastSeparableMode)"

text \<open>
  \<open>GrBlendEquation\<close> is an enumeration of another header; its values are integers here,
  and \<open>-1\<close> is the value the second constructor of \<open>CustomXP\<close> stores for "no hardware
  equation". \<open>kOverlay_GrBlendEquation\<close> follows the three basic equations and \<open>screen\<close>.
\<close>

type_synonym GrBlendEquation = int

definition kOverlay_GrBlendEquation :: GrBlendEquation where
  "kOverlay_GrBlendEquation = 4"

definition kOffset :: int where
  "kOffset = kOverlay_GrBlendEquation - mode_int kOverlay"

definition hw_blend_equation :: "SkBlendMode \<Rightarrow> GrBlendEquation" where
  "hw_blend_equation mode = mode_int mode + kOffset"

section \<open>Choosing between the hardware equation and the shader\<close>

text \<open>
  \<open>GrCaps\<close>, \<open>GrShaderCaps\<close> and \<open>GrPipelineAnalysis\<close> are outside the source files. Each
  query the code makes is a field, under the name the code calls it by, and its answers
  are inputs: nothing is assumed about what \<open>canUseAdvancedBlendEquation\<close> computes.
\<close>

record GrCaps =
  advancedBlendEquationSupport :: bool
  advancedCoherentBlendEquationSupport :: bool
  canUseAdvancedBlendEquation :: "GrBlendEquation \<Rightarrow> bool"

record GrShaderCaps =
  advBlendEqInteraction :: "32 word"
  mustEnableSpecificAdvBlendEqs :: bool

record GrPipelineAnalysis =
  fUsesPLSDstRead :: bool
  fCoveragePOI_isFourChannelOutput :: bool
  fCoveragePOI_isSolidWhite :: bool
  fColorPOI_allStagesMultiplyInput :: bool

definition can_use_hw_blend_equation ::
  "GrBlendEquation \<Rightarrow> GrPipelineAnalysis \<Rightarrow> GrCaps \<Rightarrow> bool" where
  "can_use_hw_blend_equation equation analysis caps =
     (if \<not> advancedBlendEquationSupport caps then False
      else if fUsesPLSDstRead analysis then False
      else if fCoveragePOI_isFourChannelOutput analysis then False
      else if canUseAdvancedBlendEquation caps equation then False
      else True)"

text \<open>
  \<open>CustomXP\<close>: its two fields and the state of the base class \<open>GrXferProcessor\<close>. The first
  constructor leaves the base class default-constructed (no destination read); the
  second passes \<open>(dstTexture, true, hasMixedSamples)\<close> to it, where \<open>true\<close> is
  \<open>willReadDstColor\<close>.
\<close>

record 't CustomXP =
  fMode :: SkBlendMode
  fHWBlendEquation :: GrBlendEquation
  willReadDstColor :: bool
  dstTexture :: "'t option"
  hasMixedSamples :: bool

definition CustomXP_hw :: "SkBlendMode \<Rightarrow> GrBlendEquation \<Rightarrow> 't CustomXP" where
  "CustomXP_hw mode hwBlendEquation =
     \<lparr>fMode = mode, fHWBlendEquation = hwBlendEquation, willReadDstColor = False,
      dstTexture = None, hasMixedSamples = False\<rparr>"

definition CustomXP_dstRead :: "'t option \<Rightarrow> bool \<Rightarrow> SkBlendMode \<Rightarrow> 't CustomXP" where
  "CustomXP_dstRead dstTexture0 hasMixedSamples0 mode =
     \<lparr>fMode = mode, fHWBlendEquation = - 1, willReadDstColor = True,
      dstTexture = dstTexture0, hasMixedSamples = hasMixedSamples0\<rparr>"

definition hasHWBlendEquation :: "'t CustomXP \<Rightarrow> bool" where
  "hasHWBlendEquation xp = (- 1 \<noteq> fHWBlendEquation xp)"

definition onIsEqual :: "'t CustomXP \<Rightarrow> 't CustomXP \<Rightarrow> bool" where
  "onIsEqual this s = (fMode this = fMode s \<and> fHWBlendEquation this = fHWBlendEquation s)"

text \<open>\<open>GLCustomXP::GenKey\<close>: the 32-bit key added to the key builder.\<close>

definition GenKey :: "'t CustomXP \<Rightarrow> GrShaderCaps \<Rightarrow> 32 word" where
  "GenKey xp caps =
     (let key0 = (0 :: 32 word);
          key1 = (if hasHWBlendEquation xp then key0 OR advBlendEqInteraction caps else key0);
          key2 = (if \<not> hasHWBlendEquation xp \<or> mustEnableSpecificAdvBlendEqs caps
                  then key1 OR push_bit 3 (word_of_int (mode_int (fMode xp)))
                  else key1)
      in key2)"

datatype OptFlag = kCanTweakAlphaForCoverage_OptFlag | kIgnoreCoverage_OptFlag

definition onGetOptimizations :: "'t CustomXP \<Rightarrow> GrPipelineAnalysis \<Rightarrow> OptFlag set" where
  "onGetOptimizations xp analysis =
     (let flags0 = {};
          flags1 = (if fColorPOI_allStagesMultiplyInput analysis
                    then flags0 \<union> {kCanTweakAlphaForCoverage_OptFlag} else flags0);
          flags2 = (if hasHWBlendEquation xp \<and> fCoveragePOI_isSolidWhite analysis
                    then flags1 \<union> {kIgnoreCoverage_OptFlag} else flags1)
      in flags2)"

datatype GrXferBarrierType = kNone_GrXferBarrierType | kBlend_GrXferBarrierType

definition onXferBarrier :: "'t CustomXP \<Rightarrow> GrCaps \<Rightarrow> GrXferBarrierType" where
  "onXferBarrier xp caps =
     (if hasHWBlendEquation xp \<and> \<not> advancedCoherentBlendEquationSupport caps
      then kBlend_GrXferBarrierType else kNone_GrXferBarrierType)"

text \<open>\<open>onGetBlendInfo\<close>: the equation written to \<open>blendInfo\<close>, if any.\<close>

definition onGetBlendInfo :: "'t CustomXP \<Rightarrow> GrBlendEquation option" where
  "onGetBlendInfo xp = (if hasHWBlendEquation xp then Some (fHWBlendEquation xp) else None)"

record CustomXPFactory =
  factory_fMode :: SkBlendMode
  factory_fHWBlendEquation :: GrBlendEquation

definition new_CustomXPFactory :: "SkBlendMode \<Rightarrow> CustomXPFactory" where
  "new_CustomXPFactory mode =
     \<lparr>factory_fMode = mode, factory_fHWBlendEquation = hw_blend_equation mode\<rparr>"

definition MakeXPFactory :: "SkBlendMode \<Rightarrow> CustomXPFactory option" where
  "MakeXPFactory mode =
     (if \<not> IsSupportedMode mode then None else Some (new_CustomXPFactory mode))"

definition onCreateXferProcessor ::
  "CustomXPFactory \<Rightarrow> GrCaps \<Rightarrow> GrPipelineAnalysis \<Rightarrow> bool \<Rightarrow> 't option \<Rightarrow> 't CustomXP" where
  "onCreateXferProcessor factory caps analysis hasMixedSamples0 dstTexture0 =
     (if can_use_hw_blend_equation (factory_fHWBlendEquation factory) analysis caps
      then CustomXP_hw (factory_fMode factory) (factory_fHWBlendEquation factory)
      else CustomXP_dstRead dstTexture0 hasMixedSamples0 (factory_fMode factory))"

definition onWillReadDstColor :: "CustomXPFactory \<Rightarrow> GrCaps \<Rightarrow> GrPipelineAnalysis \<Rightarrow> bool" where
  "onWillReadDstColor factory caps analysis =
     (\<not> can_use_hw_blend_equation (factory_fHWBlendEquation factory) analysis caps)"

section \<open>The blend function of the coverage derivation\<close>

text \<open>
  The comment in \<open>CustomXP::onGetOptimizations\<close> defines \<open>blend(Sca, Dca, Sa, Da)\<close> on
  premultiplied RGB vectors \<open>Sca\<close>, \<open>Dca\<close> and alphas \<open>Sa\<close>, \<open>Da\<close>, for a mode-specific function
  \<open>B\<close> of two non-premultiplied RGB colors. The derivation is over the real numbers.
\<close>

type_synonym rgb = "real \<times> real \<times> real"

definition rgb_scale :: "real \<Rightarrow> rgb \<Rightarrow> rgb" where
  "rgb_scale k c = (case c of (r, g, b) \<Rightarrow> (k * r, k * g, k * b))"

definition rgb_div :: "rgb \<Rightarrow> real \<Rightarrow> rgb" where
  "rgb_div c a = (case c of (r, g, b) \<Rightarrow> (r / a, g / a, b / a))"

definition rgb_add :: "rgb \<Rightarrow> rgb \<Rightarrow> rgb" where
  "rgb_add c d = (case (c, d) of ((r, g, b), (r', g', b')) \<Rightarrow> (r + r', g + g', b + b'))"

definition blend :: "(rgb \<Rightarrow> rgb \<Rightarrow> rgb) \<Rightarrow> rgb \<Rightarrow> rgb \<Rightarrow> real \<Rightarrow> real \<Rightarrow> rgb" where
  "blend B Sca Dca Sa Da =
     (if Sa = 0 then Dca
      else if Da = 0 then Sca
      else rgb_add (rgb_add (rgb_scale (Sa * Da) (B (rgb_div Sca Sa) (rgb_div Dca Da)))
                            (rgb_scale (1 - Da) Sca))
                   (rgb_scale (1 - Sa) Dca))"

text \<open>A premultiplied color \<open>c\<close> with alpha \<open>a\<close>: every channel lies between \<open>0\<close> and \<open>a \<le> 1\<close>.\<close>

definition premultiplied :: "rgb \<Rightarrow> real \<Rightarrow> bool" where
  "premultiplied c a =
     (case c of (r, g, b) \<Rightarrow>
        0 \<le> r \<and> r \<le> a \<and> 0 \<le> g \<and> g \<le> a \<and> 0 \<le> b \<and> b \<le> a \<and> a \<le> 1)"

text \<open>The alpha of the same derivation: \<open>blend(Sa, Da) = Sa * Da + Sa * (1-Da) + Da * (1-Sa)\<close>.\<close>

definition blend_alpha :: "real \<Rightarrow> real \<Rightarrow> real" where
  "blend_alpha Sa Da = Sa * Da + Sa * (1 - Da) + Da * (1 - Sa)"

section \<open>Example inputs\<close>

text \<open>
  A path with one verb of each kind (points are numbered), the empty path, and a unit
  square as bounds.
\<close>

definition unit_rect :: SkRect where
  "unit_rect = \<lparr>fLeft = 0, fTop = 0, fRight = 1, fBottom = 1\<rparr>"

definition mixed_path :: "nat SkPath" where
  "mixed_path =
     \<lparr>verbs = [kMove_Verb 0, kLine_Verb 0 1, kQuad_Verb 1 2 3, kConic_Verb [3, 4, 5] 1,
               kCubic_Verb [5, 6, 7], kClose_Verb],
      getFillType = kWinding_FillType, getBounds = unit_rect\<rparr>"


definition no_vertices :: "'v MSAAVertices" where
  "no_vertices = \<lparr>vertices = [], indices = []\<rparr>"

text \<open>
  An open polyline of \<open>n\<close> segments, the same followed by a second contour, and the op
  that \<open>Make\<close> builds for the polyline (color \<open>0\<close>, view matrix \<open>0\<close>, unit bounds).
\<close>

definition polyline :: "nat \<Rightarrow> nat SkPath" where
  "polyline n =
     \<lparr>verbs = kMove_Verb 0 # replicate n (kLine_Verb 0 1),
      getFillType = kWinding_FillType, getBounds = unit_rect\<rparr>"

definition two_contours :: "nat \<Rightarrow> nat SkPath" where
  "two_contours n =
     \<lparr>verbs = kMove_Verb 0 # replicate n (kLine_Verb 0 1) @ [kMove_Verb 2, kLine_Verb 2 3],
      getFillType = kWinding_FillType, getBounds = unit_rect\<rparr>"


definition polyline_op :: "nat \<Rightarrow> (nat, nat, unit) MSAAPathOp" where
  "polyline_op n =
     \<lparr>fPaths = [(0, polyline n)], fViewMatrix = 0, fMaxLineVertices = 1 + int n,
      fMaxQuadVertices = 0, fIsIndexed = False, bounds = unit_rect, pipeline = None\<rparr>"


text \<open>
  A closed triangle (three line verbs, the third closing it) with a given fill type, a
  shape around it, the op that \<open>Make\<close> builds for it, a 640 by 480 device rectangle, and
  a small family of view matrices: a uniform scale factor paired with a perspective flag.
  The scale \<open>0\<close> has no inverse.
\<close>

definition triangle :: "FillType \<Rightarrow> nat SkPath" where
  "triangle fill =
     \<lparr>verbs = [kMove_Verb 0, kLine_Verb 0 1, kLine_Verb 1 2, kLine_Verb 2 0, kClose_Verb],
      getFillType = fill, getBounds = unit_rect\<rparr>"

definition triangle_shape :: "FillType \<Rightarrow> bool \<Rightarrow> bool \<Rightarrow> nat GrShape" where
  "triangle_shape fill isInverse convex =
     \<lparr>inverseFilled = isInverse, knownToBeConvex = convex, asPath = triangle fill\<rparr>"

definition triangle_op :: "FillType \<Rightarrow> (real \<times> bool) \<Rightarrow> SkRect \<Rightarrow> (nat, real \<times> bool, unit) MSAAPathOp" where
  "triangle_op fill viewMatrix devBounds =
     \<lparr>fPaths = [(0, triangle fill)], fViewMatrix = viewMatrix, fMaxLineVertices = 4,
      fMaxQuadVertices = 0, fIsIndexed = False, bounds = devBounds, pipeline = None\<rparr>"

definition device_rect :: SkRect where
  "device_rect = \<lparr>fLeft = 0, fTop = 0, fRight = 640, fBottom = 480\<rparr>"

definition scale_ops :: "(real \<times> bool) SkMatrixOps" where
  "scale_ops =
     \<lparr>hasPerspective = (\<lambda>m. snd m),
      invert = (\<lambda>m. if fst m = 0 then None else Some (1 / fst m, snd m)),
      mapRect = (\<lambda>m r. \<lparr>fLeft = fst m * fLeft r, fTop = fst m * fTop r,
                          fRight = fst m * fRight r, fBottom = fst m * fBottom r\<rparr>),
      SkMatrix_I = (1, False)\<rparr>"

text \<open>
  Capabilities that support the advanced equations and answer \<open>true\<close> to
  \<open>canUseAdvancedBlendEquation\<close> for every equation, the same answering \<open>false\<close> for every
  equation, an analysis with no PLS destination read and single-channel coverage, a
  hardware-equation processor for \<open>kHue\<close>, and the \<open>multiply\<close> operator
  \<open>B(Sc, Dc) = Sc * Dc\<close>, channel by channel.
\<close>

definition caps_all :: GrCaps where
  "caps_all =
     \<lparr>advancedBlendEquationSupport = True, advancedCoherentBlendEquationSupport = True,
      canUseAdvancedBlendEquation = (\<lambda>equation. True)\<rparr>"

definition caps_none :: GrCaps where
  "caps_none =
     \<lparr>advancedBlendEquationSupport = True, advancedCoherentBlendEquationSupport = True,
      canUseAdvancedBlendEquation = (\<lambda>equation. False)\<rparr>"

definition plain_analysis :: GrPipelineAnalysis where
  "plain_analysis =
     \<lparr>fUsesPLSDstRead = False, fCoveragePOI_isFourChannelOutput = False,
      fCoveragePOI_isSolidWhite = False, fColorPOI_allStagesMultiplyInput = False\<rparr>"

definition shader_caps_1 :: GrShaderCaps where
  "shader_caps_1 = \<lparr>advBlendEqInteraction = 1, mustEnableSpecificAdvBlendEqs = True\<rparr>"

definition hue_xp :: "nat CustomXP" where
  "hue_xp = CustomXP_hw kHue (hw_blend_equation kHue)"

definition multiply_B :: "rgb \<Rightarrow> rgb \<Rightarrow> rgb" where
  "multiply_B Sc Dc = (case (Sc, Dc) of ((r, g, b), (r', g', b')) \<Rightarrow> (r * r', g * g', b * b'))"

section \<open>The counters as wrapped totals\<close>

lemma int32_id: "- 2147483648 \<le> x \<Longrightarrow> x < 2147483648 \<Longrightarrow> int32 x = x"
  by (simp add: int32_def)

lemma int32_add_left: "int32 (int32 a + b) = int32 (a + b)"
proof -
  have "(((a + 2147483648) mod 4294967296 - 2147483648) + b + 2147483648) mod 4294967296
          = ((a + 2147483648) mod 4294967296 + b) mod (4294967296 :: int)"
    by (simp add: algebra_simps)
  also have "\<dots> = (a + 2147483648 + b) mod 4294967296"
    by (simp add: mod_add_left_eq)
  also have "\<dots> = (a + b + 2147483648) mod 4294967296"
    by (simp add: algebra_simps)
  finally show ?thesis by (simp add: int32_def)
qed

lemma int32_add_right: "int32 (a + int32 b) = int32 (a + b)"
  using int32_add_left [of b a] by (simp add: add.commute)

lemma int32_idem: "int32 (int32 a) = int32 a"
  using int32_add_left [of a 0] by simp

lemma worstCase_verb_wrapped:
  assumes "int32 (wLine w) = wLine w" and "int32 (wQuad w) = wQuad w"
  shows "wLine (worstCase_verb w v) = int32 (wLine w + linePoints v)"
    and "wQuad (worstCase_verb w v) = int32 (wQuad w + quadPoints v)"
proof -
  obtain s l q f where w: "w = (s, l, q, f)" by (cases w) auto
  have n: "int32 l = l" "int32 q = q" using assms by (simp_all add: w wLine_def wQuad_def)
  show "wLine (worstCase_verb w v) = int32 (wLine w + linePoints v)"
    by (cases v) (simp_all add: w wLine_def Let_def n int32_add_left add.assoc)
  show "wQuad (worstCase_verb w v) = int32 (wQuad w + quadPoints v)"
    by (cases v)
       (simp_all add: w wQuad_def Let_def n int32_add_left int32_add_right add.assoc)
qed

lemma worstCase_foldl_wrapped:
  assumes "int32 (wLine w) = wLine w" and "int32 (wQuad w) = wQuad w"
  shows "wLine (foldl worstCase_verb w vs) = int32 (wLine w + sum_list (map linePoints vs)) \<and>
         wQuad (foldl worstCase_verb w vs) = int32 (wQuad w + sum_list (map quadPoints vs))"
  using assms
proof (induction vs arbitrary: w)
  case Nil
  then show ?case by simp
next
  case (Cons v vs)
  have l: "wLine (worstCase_verb w v) = int32 (wLine w + linePoints v)"
    by (rule worstCase_verb_wrapped(1) [OF Cons.prems])
  have q: "wQuad (worstCase_verb w v) = int32 (wQuad w + quadPoints v)"
    by (rule worstCase_verb_wrapped(2) [OF Cons.prems])
  have "int32 (wLine (worstCase_verb w v)) = wLine (worstCase_verb w v)"
       "int32 (wQuad (worstCase_verb w v)) = wQuad (worstCase_verb w v)"
    by (simp_all add: l q int32_idem)
  from Cons.IH [OF this] show ?case
    by (simp add: l q int32_add_left add.assoc)
qed

lemma worstCase_subpaths:
  "fst (foldl worstCase_verb (s, l, q, f) vs) =
     s + int (length (filter isMove (if f then tl vs else vs)))"
proof (induction vs arbitrary: s l q f)
  case Nil
  then show ?case by simp
next
  case (Cons v vs)
  show ?case by (cases v) (simp_all add: Cons.IH Let_def)
qed

text \<open>
  The three results of \<open>ComputeWorstCasePointCount\<close>: one more than the number of move
  verbs after the first verb, and the two totals wrapped to 32 bits.
\<close>

lemma ComputeWorstCasePointCount_wrapped:
  "ComputeWorstCasePointCount path =
     (1 + int (length (filter isMove (tl (verbs path)))),
      int32 (sum_list (map linePoints (verbs path))),
      int32 (sum_list (map quadPoints (verbs path))))"
proof -
  let ?w = "(1::int, 0::int, 0::int, True)"
  obtain s1 L1 Q1 f1 where w': "foldl worstCase_verb ?w (verbs path) = (s1, L1, Q1, f1)"
    by (cases "foldl worstCase_verb ?w (verbs path)") auto
  have "int32 (wLine ?w) = wLine ?w" "int32 (wQuad ?w) = wQuad ?w"
    by (simp_all add: wLine_def wQuad_def int32_def)
  from worstCase_foldl_wrapped [OF this, of "verbs path"]
  have "L1 = int32 (sum_list (map linePoints (verbs path)))"
       "Q1 = int32 (sum_list (map quadPoints (verbs path)))"
    by (simp_all add: w' wLine_def wQuad_def)
  moreover have "s1 = 1 + int (length (filter isMove (tl (verbs path))))"
    using worstCase_subpaths [of 1 0 0 True "verbs path"] by (simp add: w')
  ultimately show ?thesis by (simp add: ComputeWorstCasePointCount_def w')
qed

lemma points_nonneg:
  assumes "converters_ok v"
  shows "0 \<le> linePoints v \<and> 0 \<le> quadPoints v \<and> quadPoints v \<le> 3 * linePoints v"
proof (cases v)
  case (kCubic_Verb quadPts)
  then have "length quadPts mod 3 = 0" using assms by simp
  then have "int (length quadPts) = 3 * (int (length quadPts) div 3)" by presburger
  then show ?thesis using kCubic_Verb by simp
qed (use assms in simp_all)

lemma sum_points_nonneg:
  "list_all converters_ok vs \<Longrightarrow>
   0 \<le> sum_list (map linePoints vs) \<and> 0 \<le> sum_list (map quadPoints vs) \<and>
   sum_list (map quadPoints vs) \<le> 3 * sum_list (map linePoints vs)"
proof (induction vs)
  case Nil
  then show ?case by simp
next
  case (Cons v vs)
  then have "converters_ok v" and "list_all converters_ok vs" by simp_all
  from points_nonneg [OF this(1)] Cons.IH [OF this(2)] show ?case by simp
qed


lemma filter_replicate_none: "\<not> P x \<Longrightarrow> filter P (replicate n x) = []"
  by (induction n) simp_all

section \<open>The worst-case counts bound the geometry\<close>









text \<open>
  On the example path the geometry has 5 line vertices and 9 quad vertices, against
  counts of 6 and 12; indexed, it has 9 line indices and 9 quad indices.
\<close>

lemma createGeom_mixed_path:
  "map_option (\<lambda>lq. (length (vertices (fst lq)), length (indices (fst lq)),
                      length (vertices (snd lq)), length (indices (snd lq))))
     (createGeom (no_vertices, no_vertices) mixed_path 0 True) = Some (5, 9, 9, 9)"
  by (simp add: createGeom_def mixed_path_def no_vertices_def add_quad_def pts_at_def
        append_contour_edge_indices_def Let_def)






section \<open>No lines, no quads\<close>

lemma ComputeWorstCasePointCount_inv:
  assumes "list_all converters_ok (verbs path)"
      and "sum_list (map linePoints (verbs path)) < 2147483648"
      and "sum_list (map quadPoints (verbs path)) < 2147483648"
      and "ComputeWorstCasePointCount path = (subpaths, maxLineVertices, maxQuadVertices)"
  shows "0 \<le> maxQuadVertices \<and> maxQuadVertices \<le> 3 * maxLineVertices"
proof -
  note nn = sum_points_nonneg [OF assms(1)]
  have "maxLineVertices = sum_list (map linePoints (verbs path))"
       "maxQuadVertices = sum_list (map quadPoints (verbs path))"
    using assms(4) nn assms(2,3)
    by (simp_all add: ComputeWorstCasePointCount_wrapped int32_id)
  then show ?thesis using nn by simp
qed

text \<open>
  The same invariant on the ops: \<open>Make\<close> stores the two counts, and a merge adds them, so
  every op built by \<open>Make\<close> from such a path, and by merges, has
  \<open>0 \<le> fMaxQuadVertices \<le> 3 * fMaxLineVertices\<close>.
\<close>

lemma Make_counts_inv:
  assumes "list_all converters_ok (verbs path)"
      and "sum_list (map linePoints (verbs path)) < 2147483648"
      and "sum_list (map quadPoints (verbs path)) < 2147483648"
      and "Make color path viewMatrix devBounds = Some op"
  shows "0 \<le> fMaxQuadVertices op \<and> fMaxQuadVertices op \<le> 3 * fMaxLineVertices op"
proof -
  obtain s l q where c: "ComputeWorstCasePointCount path = (s, l, q)"
    by (cases "ComputeWorstCasePointCount path") auto
  have "fMaxLineVertices op = l" "fMaxQuadVertices op = q"
    using assms(4) c by (auto simp: Make_def Let_def split: if_splits)
  then show ?thesis using ComputeWorstCasePointCount_inv [OF assms(1,2,3) c] by simp
qed

lemma onCombineIfPossible_counts_inv:
  assumes "0 \<le> fMaxQuadVertices this \<and> fMaxQuadVertices this \<le> 3 * fMaxLineVertices this"
      and "0 \<le> fMaxQuadVertices that \<and> fMaxQuadVertices that \<le> 3 * fMaxLineVertices that"
  shows "0 \<le> fMaxQuadVertices (snd (onCombineIfPossible CanCombine this that)) \<and>
         fMaxQuadVertices (snd (onCombineIfPossible CanCombine this that))
           \<le> 3 * fMaxLineVertices (snd (onCombineIfPossible CanCombine this that))"
  using assms by (simp add: onCombineIfPossible_def)




section \<open>Batch creation\<close>

lemma ComputeWorstCasePointCount_polyline:
  "ComputeWorstCasePointCount (polyline n) = (1, int32 (1 + int n), 0)"
  by (simp add: ComputeWorstCasePointCount_wrapped polyline_def filter_replicate_none
        sum_list_replicate int32_def)

lemma ComputeWorstCasePointCount_two_contours:
  "ComputeWorstCasePointCount (two_contours n) = (2, int32 (3 + int n), 0)"
  by (simp add: ComputeWorstCasePointCount_wrapped two_contours_def filter_replicate_none
        sum_list_replicate int32_def algebra_simps)

lemma Make_polyline:
  "n < 2147483647 \<Longrightarrow> Make 0 (polyline n) 0 unit_rect = Some (polyline_op n)"
  by (simp add: Make_def ComputeWorstCasePointCount_polyline polyline_op_def int32_id)

text \<open>
  Claim C5. \<open>Make\<close> returns null exactly when the path has more than one subpath (the
  batch would be indexed) and its worst-case line-vertex count or quad-vertex count is
  above \<open>65535 div 3 = 21845\<close>. The subpath count is one more than the number of move
  verbs after the first verb, so a path of a single subpath is never rejected. The
  rejection is the returned value \<open>None\<close>.
\<close>

theorem Make_rejects_iff:
  assumes "ComputeWorstCasePointCount path = (contourCount, maxLineVertices, maxQuadVertices)"
  shows "((Make color path viewMatrix devBounds :: ('p, 'm, 'pl) MSAAPathOp option) = None
            \<longleftrightarrow> contourCount > 1 \<and> (maxLineVertices > 21845 \<or> maxQuadVertices > 21845)) \<and>
         contourCount = 1 + int (length (filter isMove (tl (verbs path))))"
proof -
  have k: "kMaxIndexedVertexCnt = 21845" by (simp add: kMaxIndexedVertexCnt_def)
  have "(Make color path viewMatrix devBounds :: ('p, 'm, 'pl) MSAAPathOp option) = None
            \<longleftrightarrow> contourCount > 1 \<and> (maxLineVertices > 21845 \<or> maxQuadVertices > 21845)"
    using assms by (simp add: Make_def k Let_def)
  moreover have "contourCount = 1 + int (length (filter isMove (tl (verbs path))))"
  proof -
    have "contourCount = fst (foldl worstCase_verb (1, 0, 0, True) (verbs path))"
      using assms by (simp add: ComputeWorstCasePointCount_def split: prod.splits)
    then show ?thesis by (simp add: worstCase_subpaths)
  qed
  ultimately show ?thesis by blast
qed

theorem Make_rejects_iff_witness:
  "ComputeWorstCasePointCount (two_contours 21843) = (2, 21846, 0) \<and>
   (Make 0 (two_contours 21843) (0::nat) unit_rect :: (nat, nat, unit) MSAAPathOp option) = None \<and>
   ComputeWorstCasePointCount (polyline 30000) = (1, 30001, 0) \<and>
   (Make 0 (polyline 30000) (0::nat) unit_rect :: (nat, nat, unit) MSAAPathOp option) \<noteq> None"
proof -
  have a: "ComputeWorstCasePointCount (two_contours 21843) = (2, 21846, 0)"
    by (simp add: ComputeWorstCasePointCount_two_contours int32_def)
  have c: "ComputeWorstCasePointCount (polyline 30000) = (1, 30001, 0)"
    by (simp add: ComputeWorstCasePointCount_polyline int32_def)
  have r: "(Make 0 (two_contours 21843) (0::nat) unit_rect :: (nat, nat, unit) MSAAPathOp option) = None"
    using Make_rejects_iff [OF a, of 0 "0::nat" unit_rect, where ?'pl = unit] by simp
  have k: "(Make 0 (polyline 30000) (0::nat) unit_rect :: (nat, nat, unit) MSAAPathOp option) \<noteq> None"
    using Make_rejects_iff [OF c, of 0 "0::nat" unit_rect, where ?'pl = unit] by simp
  show ?thesis using a c r k by blast
qed

section \<open>Batch merging\<close>


lemma onCombineIfPossible_False:
  "fst (onCombineIfPossible CanCombine this that) = False \<Longrightarrow>
   snd (onCombineIfPossible CanCombine this that) = this"
  by (auto simp: onCombineIfPossible_def split: if_splits)







section \<open>The pass plan\<close>

text \<open>
  Claim C4. \<open>internalDrawPath\<close> plans exactly one pass for a shape that is not inverse
  filled and known to be convex, whether or not only the stencil is requested. For a
  shape that is not single-pass and an even-odd or winding fill type, inverse or not,
  it plans two passes when color is written and one pass when only the stencil is
  requested, and the last pass is the cover pass exactly when color is written. For such
  a shape any other fill-type value ends in the failure branch of the switch.
\<close>

theorem plan_pass_counts:
  "(single_pass_shape shape \<longleftrightarrow> \<not> inverseFilled shape \<and> knownToBeConvex shape) \<and>
   (single_pass_shape shape \<longrightarrow>
      (\<exists>plan. plan_passes shape stencilOnly = Inr plan \<and> passCount plan = 1 \<and>
              length (passes plan) = 1 \<and> \<not> lastPassIsBounds plan)) \<and>
   (\<not> single_pass_shape shape \<and>
    getFillType (asPath shape) \<in> {kEvenOdd_FillType, kInverseEvenOdd_FillType,
                                    kWinding_FillType, kInverseWinding_FillType} \<longrightarrow>
      (\<exists>plan. plan_passes shape stencilOnly = Inr plan \<and>
              passCount plan = (if stencilOnly then 1 else 2) \<and>
              int (length (passes plan)) = passCount plan \<and>
              lastPassIsBounds plan = (\<not> stencilOnly))) \<and>
   (\<not> single_pass_shape shape \<and> getFillType (asPath shape) = kOther_FillType v \<longrightarrow>
      plan_passes shape stencilOnly = Inl UnknownPathFill)"
  by (auto simp: plan_passes_def single_pass_shape_def evenOdd_plan_def winding_plan_def)

theorem plan_pass_counts_witness:
  "(\<exists>plan. plan_passes (triangle_shape kWinding_FillType False True) False = Inr plan \<and>
           passCount plan = 1) \<and>
   (\<exists>plan. plan_passes (triangle_shape kInverseWinding_FillType True True) False = Inr plan \<and>
           passCount plan = 2) \<and>
   (\<exists>plan. plan_passes (triangle_shape kEvenOdd_FillType False False) True = Inr plan \<and>
           passCount plan = 1) \<and>
   plan_passes (triangle_shape (kOther_FillType 7) False False) False = Inl UnknownPathFill"
proof -
  let ?S1 = "triangle_shape kWinding_FillType False True"
  let ?S2 = "triangle_shape kInverseWinding_FillType True True"
  let ?S3 = "triangle_shape kEvenOdd_FillType False False"
  let ?S4 = "triangle_shape (kOther_FillType 7) False False"
  let ?fills = "{kEvenOdd_FillType, kInverseEvenOdd_FillType,
                 kWinding_FillType, kInverseWinding_FillType}"
  have a: "single_pass_shape ?S1"
    by (simp add: single_pass_shape_def triangle_shape_def)
  have b: "\<not> single_pass_shape ?S2" "\<not> single_pass_shape ?S3" "\<not> single_pass_shape ?S4"
    by (simp_all add: single_pass_shape_def triangle_shape_def)
  have f: "getFillType (asPath ?S2) \<in> ?fills" "getFillType (asPath ?S3) \<in> ?fills"
          "getFillType (asPath ?S4) = kOther_FillType 7"
    by (simp_all add: triangle_shape_def triangle_def)
  have 1: "\<exists>plan. plan_passes ?S1 False = Inr plan \<and> passCount plan = 1"
    using a plan_pass_counts [of ?S1 False 7] by blast
  have "\<exists>plan. plan_passes ?S2 False = Inr plan \<and> passCount plan = (if False then 1 else 2) \<and>
          int (length (passes plan)) = passCount plan \<and> lastPassIsBounds plan = (\<not> False)"
    using b(1) f(1) plan_pass_counts [of ?S2 False 7] by blast
  then have 2: "\<exists>plan. plan_passes ?S2 False = Inr plan \<and> passCount plan = 2"
    by auto
  have "\<exists>plan. plan_passes ?S3 True = Inr plan \<and> passCount plan = (if True then 1 else 2) \<and>
          int (length (passes plan)) = passCount plan \<and> lastPassIsBounds plan = (\<not> True)"
    using b(2) f(2) plan_pass_counts [of ?S3 True 7] by blast
  then have 3: "\<exists>plan. plan_passes ?S3 True = Inr plan \<and> passCount plan = 1"
    by auto
  have 4: "plan_passes ?S4 False = Inl UnknownPathFill"
    using b(3) f(3) plan_pass_counts [of ?S4 False 7] by blast
  show ?thesis using 1 2 3 4 by blast
qed

lemma draw_passes_length:
  "draw_passes ops color viewMatrix path devBounds plan ps added = (True, draws) \<Longrightarrow>
   length draws = length added + length ps"
  by (induction ps arbitrary: added) (auto split: option.splits)

lemma internalDrawPath_draws_every_pass:
  "plan_passes shape stencilOnly = Inr plan \<Longrightarrow> 0 \<le> passCount plan \<Longrightarrow>
   internalDrawPath ops color viewMatrix shape stencilOnly devBounds = Inr (True, draws) \<Longrightarrow>
   int (length draws) = passCount plan"
  by (auto simp: internalDrawPath_def dest: draw_passes_length)

section \<open>The cover pass\<close>

text \<open>
  Claim C6, as amended. For a shape that is not single-pass, an even-odd or winding fill
  type and color writing, when the path op of the stencil pass is created,
  \<open>internalDrawPath\<close> adds the stencil pass and then: for a non-inverse fill, the rectangle
  of the path's own bounds with the caller's view matrix; for an inverse fill whose view
  matrix is invertible, the device bounds mapped through the inverse when the view matrix
  has no perspective, and the device bounds with the identity as view matrix and the
  inverse as local matrix when it has perspective; for an inverse fill whose view matrix
  is not invertible, no cover pass at all: the function returns \<open>false\<close> after the stencil
  pass.
\<close>

theorem cover_pass_rect:
  assumes "\<not> single_pass_shape shape"
      and "getFillType (asPath shape) = fill"
      and "fill \<in> {kEvenOdd_FillType, kInverseEvenOdd_FillType,
                    kWinding_FillType, kInverseWinding_FillType}"
      and "Make color (asPath shape) viewMatrix devBounds = Some op"
  shows "internalDrawPath ops color viewMatrix shape False devBounds =
     Inr (let stencilDraw =
                (PathOp op,
                 if fill \<in> {kEvenOdd_FillType, kInverseEvenOdd_FillType}
                 then gEOStencilPass else gWindStencilSeparateWithWrap,
                 True);
              coverPass =
                (if fill = kEvenOdd_FillType then gEOColorPass
                 else if fill = kInverseEvenOdd_FillType then gInvEOColorPass
                 else if fill = kWinding_FillType then gWindColorPass
                 else gInvWindColorPass)
          in if fill \<in> {kEvenOdd_FillType, kWinding_FillType}
             then (True, [stencilDraw,
                          (NonAAFill color viewMatrix (getBounds (asPath shape)) (SkMatrix_I ops),
                           coverPass, False)])
             else (case invert ops viewMatrix of
                     None \<Rightarrow> (False, [stencilDraw])
                   | Some vmi \<Rightarrow>
                       if hasPerspective ops viewMatrix
                       then (True, [stencilDraw,
                                    (NonAAFill color (SkMatrix_I ops) devBounds vmi,
                                     coverPass, False)])
                       else (True, [stencilDraw,
                                    (NonAAFill color viewMatrix (mapRect ops vmi devBounds)
                                       (SkMatrix_I ops),
                                     coverPass, False)])))"
proof -
  have n: "[0 ..< 2] = [0, Suc 0]" by (simp add: numeral_2_eq_2)
  consider "fill = kEvenOdd_FillType" | "fill = kInverseEvenOdd_FillType"
    | "fill = kWinding_FillType" | "fill = kInverseWinding_FillType"
    using assms(3) by auto
  then show ?thesis
  proof cases
    case 1
    then show ?thesis using assms(1,2,4)
      by (simp add: internalDrawPath_def plan_passes_def evenOdd_plan_def n draw_pass_def
            cover_rect_def)
  next
    case 2
    then show ?thesis using assms(1,2,4)
      by (simp add: internalDrawPath_def plan_passes_def evenOdd_plan_def n draw_pass_def
            cover_rect_def split: option.splits)
  next
    case 3
    then show ?thesis using assms(1,2,4)
      by (simp add: internalDrawPath_def plan_passes_def winding_plan_def n draw_pass_def
            cover_rect_def)
  next
    case 4
    then show ?thesis using assms(1,2,4)
      by (simp add: internalDrawPath_def plan_passes_def winding_plan_def n draw_pass_def
            cover_rect_def split: option.splits)
  qed
qed

lemma Make_triangle:
  "Make 0 (triangle fill) viewMatrix devBounds = Some (triangle_op fill viewMatrix devBounds)"
  by (simp add: Make_def triangle_def triangle_op_def ComputeWorstCasePointCount_def int32_def)

lemma triangle_fields:
  "getFillType (triangle fill) = fill" "getBounds (triangle fill) = unit_rect"
  by (simp_all add: triangle_def)

lemma upt_2: "[0 ..< 2] = [0, Suc 0]"
  by (simp add: numeral_2_eq_2)


theorem cover_pass_rect_witness:
  "internalDrawPath scale_ops 0 (2, False) (triangle_shape kWinding_FillType False False) False
     device_rect =
     Inr (True, [(PathOp (triangle_op kWinding_FillType (2, False) device_rect),
                  gWindStencilSeparateWithWrap, True),
                 (NonAAFill 0 (2, False) unit_rect (1, False), gWindColorPass, False)]) \<and>
   internalDrawPath scale_ops 0 (2, False) (triangle_shape kInverseWinding_FillType True False) False
     device_rect =
     Inr (True, [(PathOp (triangle_op kInverseWinding_FillType (2, False) device_rect),
                  gWindStencilSeparateWithWrap, True),
                 (NonAAFill 0 (2, False)
                    \<lparr>fLeft = 0, fTop = 0, fRight = 320, fBottom = 240\<rparr> (1, False),
                  gInvWindColorPass, False)]) \<and>
   internalDrawPath scale_ops 0 (2, True) (triangle_shape kInverseWinding_FillType True False) False
     device_rect =
     Inr (True, [(PathOp (triangle_op kInverseWinding_FillType (2, True) device_rect),
                  gWindStencilSeparateWithWrap, True),
                 (NonAAFill 0 (1, False) device_rect (1 / 2, True), gInvWindColorPass, False)])"
proof -
  let ?fills = "{kEvenOdd_FillType, kInverseEvenOdd_FillType,
                 kWinding_FillType, kInverseWinding_FillType}"
  have ns: "\<not> single_pass_shape (triangle_shape fill isInverse False)" for fill isInverse
    by (simp add: single_pass_shape_def triangle_shape_def)
  have ft: "getFillType (asPath (triangle_shape fill isInverse False)) = fill" for fill isInverse
    by (simp add: triangle_shape_def triangle_fields)
  have mk: "Make 0 (asPath (triangle_shape fill isInverse False)) m device_rect
               = Some (triangle_op fill m device_rect)" for fill isInverse m
    by (simp add: triangle_shape_def Make_triangle)
  have gb: "getBounds (asPath (triangle_shape fill isInverse False)) = unit_rect" for fill isInverse
    by (simp add: triangle_shape_def triangle_fields)
  have m1: "kWinding_FillType \<in> ?fills" and m2: "kInverseWinding_FillType \<in> ?fills"
    by simp_all
  have i1: "invert scale_ops (2, False) = Some (1 / 2, False)"
    and i2: "invert scale_ops (2, True) = Some (1 / 2, True)"
    and p1: "\<not> hasPerspective scale_ops (2, False)" and p2: "hasPerspective scale_ops (2, True)"
    and id: "SkMatrix_I scale_ops = (1, False)"
    and mr: "mapRect scale_ops (1 / 2, False) device_rect
               = \<lparr>fLeft = 0, fTop = 0, fRight = 320, fBottom = 240\<rparr>"
    by (simp_all add: scale_ops_def device_rect_def)
  have a: "internalDrawPath scale_ops 0 (2, False)
       (triangle_shape kWinding_FillType False False) False device_rect =
     Inr (True, [(PathOp (triangle_op kWinding_FillType (2, False) device_rect),
                  gWindStencilSeparateWithWrap, True),
                 (NonAAFill 0 (2, False) unit_rect (1, False), gWindColorPass, False)])"
    using cover_pass_rect [where shape = "triangle_shape kWinding_FillType False False"
        and fill = kWinding_FillType and color = 0 and viewMatrix = "(2, False)" and devBounds = device_rect
        and op = "triangle_op kWinding_FillType (2, False) device_rect" and ops = scale_ops,
        OF ns ft m1 mk]
    by (simp add: gb id)
  have b: "internalDrawPath scale_ops 0 (2, False)
       (triangle_shape kInverseWinding_FillType True False) False device_rect =
     Inr (True, [(PathOp (triangle_op kInverseWinding_FillType (2, False) device_rect),
                  gWindStencilSeparateWithWrap, True),
                 (NonAAFill 0 (2, False)
                    \<lparr>fLeft = 0, fTop = 0, fRight = 320, fBottom = 240\<rparr> (1, False),
                  gInvWindColorPass, False)])"
    using cover_pass_rect [where shape = "triangle_shape kInverseWinding_FillType True False"
        and fill = kInverseWinding_FillType and color = 0 and viewMatrix = "(2, False)" and devBounds = device_rect
        and op = "triangle_op kInverseWinding_FillType (2, False) device_rect" and ops = scale_ops,
        OF ns ft m2 mk]
    by (simp add: gb id i1 p1 mr)
  have c: "internalDrawPath scale_ops 0 (2, True)
       (triangle_shape kInverseWinding_FillType True False) False device_rect =
     Inr (True, [(PathOp (triangle_op kInverseWinding_FillType (2, True) device_rect),
                  gWindStencilSeparateWithWrap, True),
                 (NonAAFill 0 (1, False) device_rect (1 / 2, True), gInvWindColorPass, False)])"
    using cover_pass_rect [where shape = "triangle_shape kInverseWinding_FillType True False"
        and fill = kInverseWinding_FillType and color = 0 and viewMatrix = "(2, True)" and devBounds = device_rect
        and op = "triangle_op kInverseWinding_FillType (2, True) device_rect" and ops = scale_ops,
        OF ns ft m2 mk]
    by (simp add: gb id i2 p2)
  show ?thesis using a b c by blast
qed

text \<open>
  The claim lets every inverse fill that is not "non-perspective and invertible" render
  the device bounds with the inverse as local matrix. A view matrix without an inverse
  has none to use: for the inverse-winding triangle under the scale \<open>0\<close> the function adds
  the stencil pass only and returns \<open>false\<close>.
\<close>

theorem singular_view_matrix_counterexample:
  "internalDrawPath scale_ops 0 (0, False) (triangle_shape kInverseWinding_FillType True False) False
     device_rect =
     Inr (False, [(PathOp (triangle_op kInverseWinding_FillType (0, False) device_rect),
                   gWindStencilSeparateWithWrap, True)])"
proof -
  have i: "invert scale_ops (0, False) = None" and p: "\<not> hasPerspective scale_ops (0, False)"
    by (simp_all add: scale_ops_def)
  show ?thesis
    by (simp add: internalDrawPath_def plan_passes_def winding_plan_def draw_pass_def
          cover_rect_def single_pass_shape_def triangle_shape_def triangle_fields
          Make_triangle upt_2 i p)
qed

section \<open>Supported blend modes\<close>

lemma mode_int_range: "0 \<le> mode_int mode \<and> mode_int mode \<le> 28"
  by (cases mode) simp_all

text \<open>
  Claim C7, as amended. \<open>IsSupportedMode\<close> holds exactly for the modes strictly above
  \<open>kLastCoeffMode\<close> and at or below \<open>kLastMode\<close>: the fourteen modes from \<open>kOverlay\<close> to
  \<open>kLuminosity\<close>. It is false exactly for the coefficient (Porter-Duff) modes.
\<close>

theorem IsSupportedMode_range:
  "IsSupportedMode mode =
     (mode_int kLastCoeffMode < mode_int mode \<and> mode_int mode \<le> mode_int kLastMode) \<and>
   IsSupportedMode mode =
     (mode \<in> {kOverlay, kDarken, kLighten, kColorDodge, kColorBurn, kHardLight, kSoftLight,
               kDifference, kExclusion, kMultiply, kHue, kSaturation, kColor, kLuminosity}) \<and>
   IsSupportedMode mode = (\<not> isCoeffMode mode) \<and>
   IsSupportedMode mode = (15 \<le> mode_int mode)"
  by (cases mode) (simp_all add: IsSupportedMode_def isCoeffMode_def kLastCoeffMode_def kLastMode_def)


theorem IsSupportedMode_range_witness:
  "IsSupportedMode kHue \<and> \<not> IsSupportedMode kScreen \<and> isCoeffMode kScreen"
  using IsSupportedMode_range [of kHue] IsSupportedMode_range [of kScreen]
  by (simp add: isCoeffMode_def kLastCoeffMode_def kLastMode_def)

text \<open>
  The claim says the function is false for every separable mode. The separable modes
  reach up to \<open>kLastSeparableMode\<close>, above \<open>kLastCoeffMode\<close>: \<open>kOverlay\<close> and \<open>kMultiply\<close> are
  separable and supported.
\<close>

theorem separable_mode_supported_counterexample:
  "isSeparableMode kOverlay \<and> IsSupportedMode kOverlay \<and>
   isSeparableMode kMultiply \<and> IsSupportedMode kMultiply"
  by (simp add: isSeparableMode_def IsSupportedMode_def kLastSeparableMode_def
        kLastCoeffMode_def kLastMode_def)

section \<open>Hardware equation or shader\<close>

lemma can_use_hw_blend_equation_iff:
  "can_use_hw_blend_equation equation analysis caps \<longleftrightarrow>
     advancedBlendEquationSupport caps \<and> \<not> fUsesPLSDstRead analysis \<and>
     \<not> fCoveragePOI_isFourChannelOutput analysis \<and>
     \<not> canUseAdvancedBlendEquation caps equation"
  by (simp add: can_use_hw_blend_equation_def)

lemma hw_blend_equation_supported:
  "IsSupportedMode mode \<Longrightarrow> 4 \<le> hw_blend_equation mode \<and> hw_blend_equation mode \<le> 17"
  by (cases mode)
     (simp_all add: IsSupportedMode_def hw_blend_equation_def kOffset_def
        kOverlay_GrBlendEquation_def kLastCoeffMode_def kLastMode_def)

lemma onCreateXferProcessor_hw_iff:
  assumes "IsSupportedMode mode"
  shows "hasHWBlendEquation (onCreateXferProcessor (new_CustomXPFactory mode) caps analysis mixed tex)
         \<longleftrightarrow> can_use_hw_blend_equation (hw_blend_equation mode) analysis caps"
    and "willReadDstColor (onCreateXferProcessor (new_CustomXPFactory mode) caps analysis mixed tex)
         \<longleftrightarrow> \<not> can_use_hw_blend_equation (hw_blend_equation mode) analysis caps"
    and "onWillReadDstColor (new_CustomXPFactory mode) caps analysis
         \<longleftrightarrow> \<not> can_use_hw_blend_equation (hw_blend_equation mode) analysis caps"
  using hw_blend_equation_supported [OF assms]
  by (auto simp: onCreateXferProcessor_def new_CustomXPFactory_def hasHWBlendEquation_def
        CustomXP_hw_def CustomXP_dstRead_def onWillReadDstColor_def)

text \<open>
  Claim C2. For every blend mode in the advanced range, every capability set and every
  pipeline analysis, \<open>onCreateXferProcessor\<close> builds the processor with the hardware blend
  equation of the mode and no destination read if and only if the capabilities support
  advanced blend equations, the analysis has no PLS destination read, the coverage
  output is not four-channel, and the backend does not refuse the equation; otherwise
  it builds the shader fallback, which reads the destination color, and
  \<open>onWillReadDstColor\<close> answers accordingly. The backend refuses an equation when
  \<open>canUseAdvancedBlendEquation\<close> answers \<open>true\<close> for it: that is the answer on which
  \<open>can_use_hw_blend_equation\<close> returns \<open>false\<close>.
\<close>

theorem hw_equation_selected_iff:
  assumes "IsSupportedMode mode"
  shows "let xp = onCreateXferProcessor (new_CustomXPFactory mode) caps analysis mixed tex;
             usable = (advancedBlendEquationSupport caps \<and> \<not> fUsesPLSDstRead analysis \<and>
                       \<not> fCoveragePOI_isFourChannelOutput analysis \<and>
                       \<not> canUseAdvancedBlendEquation caps (hw_blend_equation mode))
         in (hasHWBlendEquation xp \<and> \<not> willReadDstColor xp) = usable \<and>
            (\<not> hasHWBlendEquation xp \<and> willReadDstColor xp) = (\<not> usable) \<and>
            xp = (if usable then CustomXP_hw mode (hw_blend_equation mode)
                  else CustomXP_dstRead tex mixed mode) \<and>
            onWillReadDstColor (new_CustomXPFactory mode) caps analysis = (\<not> usable)"
  using hw_blend_equation_supported [OF assms]
  by (auto simp: Let_def onCreateXferProcessor_def new_CustomXPFactory_def
        hasHWBlendEquation_def CustomXP_hw_def CustomXP_dstRead_def onWillReadDstColor_def
        can_use_hw_blend_equation_def)

theorem hw_equation_selected_iff_witness:
  "IsSupportedMode kOverlay \<and>
   onCreateXferProcessor (new_CustomXPFactory kOverlay) caps_none plain_analysis False
       (None :: nat option) = CustomXP_hw kOverlay 4 \<and>
   \<not> onWillReadDstColor (new_CustomXPFactory kOverlay) caps_none plain_analysis \<and>
   onCreateXferProcessor (new_CustomXPFactory kOverlay) caps_all plain_analysis False
       (None :: nat option) = CustomXP_dstRead None False kOverlay \<and>
   onWillReadDstColor (new_CustomXPFactory kOverlay) caps_all plain_analysis"
proof -
  have m: "IsSupportedMode kOverlay"
    by (simp add: IsSupportedMode_def kLastCoeffMode_def kLastMode_def)
  have e: "hw_blend_equation kOverlay = 4"
    by (simp add: hw_blend_equation_def kOffset_def kOverlay_GrBlendEquation_def)
  have h: "onCreateXferProcessor (new_CustomXPFactory kOverlay) caps_none plain_analysis False
             (None :: nat option) = CustomXP_hw kOverlay 4 \<and>
           \<not> onWillReadDstColor (new_CustomXPFactory kOverlay) caps_none plain_analysis"
    using hw_equation_selected_iff [OF m, of caps_none plain_analysis False "None :: nat option"]
    by (simp add: Let_def e caps_none_def plain_analysis_def)
  have d: "onCreateXferProcessor (new_CustomXPFactory kOverlay) caps_all plain_analysis False
             (None :: nat option) = CustomXP_dstRead None False kOverlay \<and>
           onWillReadDstColor (new_CustomXPFactory kOverlay) caps_all plain_analysis"
    using hw_equation_selected_iff [OF m, of caps_all plain_analysis False "None :: nat option"]
    by (simp add: Let_def e caps_all_def plain_analysis_def)
  show ?thesis using m h d by blast
qed

section \<open>Equality of processors\<close>

text \<open>
  Claim C9. Two \<open>CustomXP\<close> instances are equal under \<open>onIsEqual\<close> exactly when their blend
  modes are equal and their hardware blend equations are equal. Equal instances agree on
  having a hardware equation, on the shader key for any shader capabilities, on the blend
  info, on the barrier and on the optimization flags, so they are interchangeable for
  caching. For two processors created by factories of supported modes, equality is the
  same as equal modes and the same choice between hardware equation and shader.
\<close>

theorem onIsEqual_iff:
  "(onIsEqual this s \<longleftrightarrow> fMode this = fMode s \<and> fHWBlendEquation this = fHWBlendEquation s) \<and>
   (onIsEqual this s \<longrightarrow>
      hasHWBlendEquation this = hasHWBlendEquation s \<and>
      GenKey this shaderCaps = GenKey s shaderCaps \<and>
      onGetBlendInfo this = onGetBlendInfo s \<and>
      onXferBarrier this caps = onXferBarrier s caps \<and>
      onGetOptimizations this analysis = onGetOptimizations s analysis) \<and>
   (IsSupportedMode mode \<and> IsSupportedMode mode' \<longrightarrow>
      (onIsEqual (onCreateXferProcessor (new_CustomXPFactory mode) caps analysis mixed tex)
                 (onCreateXferProcessor (new_CustomXPFactory mode') caps' analysis' mixed' tex')
       \<longleftrightarrow> mode = mode' \<and>
           can_use_hw_blend_equation (hw_blend_equation mode) analysis caps =
           can_use_hw_blend_equation (hw_blend_equation mode') analysis' caps'))"
proof -
  have 1: "onIsEqual this s \<longleftrightarrow> fMode this = fMode s \<and> fHWBlendEquation this = fHWBlendEquation s"
    by (simp add: onIsEqual_def)
  have 2: "onIsEqual this s \<longrightarrow>
      hasHWBlendEquation this = hasHWBlendEquation s \<and>
      GenKey this shaderCaps = GenKey s shaderCaps \<and>
      onGetBlendInfo this = onGetBlendInfo s \<and>
      onXferBarrier this caps = onXferBarrier s caps \<and>
      onGetOptimizations this analysis = onGetOptimizations s analysis"
    by (simp add: onIsEqual_def hasHWBlendEquation_def GenKey_def onGetBlendInfo_def
          onXferBarrier_def onGetOptimizations_def Let_def)
  have 3: "IsSupportedMode mode \<and> IsSupportedMode mode' \<longrightarrow>
      (onIsEqual (onCreateXferProcessor (new_CustomXPFactory mode) caps analysis mixed tex)
                 (onCreateXferProcessor (new_CustomXPFactory mode') caps' analysis' mixed' tex')
       \<longleftrightarrow> mode = mode' \<and>
           can_use_hw_blend_equation (hw_blend_equation mode) analysis caps =
           can_use_hw_blend_equation (hw_blend_equation mode') analysis' caps')"
  proof
    assume a: "IsSupportedMode mode \<and> IsSupportedMode mode'"
    then have "4 \<le> hw_blend_equation mode" "4 \<le> hw_blend_equation mode'"
      using hw_blend_equation_supported by blast+
    then show "onIsEqual (onCreateXferProcessor (new_CustomXPFactory mode) caps analysis mixed tex)
                 (onCreateXferProcessor (new_CustomXPFactory mode') caps' analysis' mixed' tex')
       \<longleftrightarrow> mode = mode' \<and>
           can_use_hw_blend_equation (hw_blend_equation mode) analysis caps =
           can_use_hw_blend_equation (hw_blend_equation mode') analysis' caps'"
      by (auto simp: onIsEqual_def onCreateXferProcessor_def new_CustomXPFactory_def
            CustomXP_hw_def CustomXP_dstRead_def)
  qed
  show ?thesis using 1 2 3 by blast
qed


theorem onIsEqual_iff_witness:
  "onIsEqual hue_xp (hue_xp\<lparr>dstTexture := Some 1\<rparr>) \<and>
   IsSupportedMode kHue \<and> IsSupportedMode kColor \<and>
   GenKey hue_xp shader_caps_1 = GenKey (hue_xp\<lparr>dstTexture := Some 1\<rparr>) shader_caps_1 \<and>
   \<not> onIsEqual (onCreateXferProcessor (new_CustomXPFactory kHue) caps_all plain_analysis False
                  (None :: nat option))
               (onCreateXferProcessor (new_CustomXPFactory kColor) caps_all plain_analysis False
                  None)"
proof -
  have e: "onIsEqual hue_xp (hue_xp\<lparr>dstTexture := Some 1\<rparr>)"
    by (simp add: onIsEqual_def)
  have m: "IsSupportedMode kHue \<and> IsSupportedMode kColor"
    by (simp add: IsSupportedMode_def kLastCoeffMode_def kLastMode_def)
  have k: "GenKey hue_xp shader_caps_1 = GenKey (hue_xp\<lparr>dstTexture := Some 1\<rparr>) shader_caps_1"
    using e onIsEqual_iff [of hue_xp "hue_xp\<lparr>dstTexture := Some 1\<rparr>" shader_caps_1]
    by blast
  have n: "\<not> onIsEqual (onCreateXferProcessor (new_CustomXPFactory kHue) caps_all plain_analysis
                  False (None :: nat option))
               (onCreateXferProcessor (new_CustomXPFactory kColor) caps_all plain_analysis False
                  None)"
    using m onIsEqual_iff [where mode = kHue and mode' = kColor and caps = caps_all
        and caps' = caps_all and analysis = plain_analysis and analysis' = plain_analysis
        and mixed = False and mixed' = False and tex = "None :: nat option"
        and tex' = "None :: nat option" and this = hue_xp and s = hue_xp]
    by simp
  show ?thesis using e m k n by blast
qed

section \<open>The coverage identity\<close>

lemma rgb_cases: "\<exists>r g b. (c :: rgb) = (r, g, b)"
  by (cases c) auto

text \<open>
  Claim C3. For every coverage \<open>f\<close> in \<open>[0, 1]\<close>, premultiplied source and destination
  colors with alphas \<open>Sa\<close> and \<open>Da\<close>, and every operator \<open>B\<close>:
  \<open>blend(f * Sca, Dca, f * Sa, Da) = f * blend(Sca, Dca, Sa, Da) + (1 - f) * Dca\<close>, over the
  real numbers. The cases \<open>Sa = 0\<close>, \<open>Da = 0\<close> and \<open>f = 0\<close> are instances of the one equation.
\<close>

theorem blend_coverage_identity:
  assumes "0 \<le> f" "f \<le> 1" "premultiplied Sca Sa" "premultiplied Dca Da"
  shows "blend B (rgb_scale f Sca) Dca (f * Sa) Da =
           rgb_add (rgb_scale f (blend B Sca Dca Sa Da)) (rgb_scale (1 - f) Dca)"
proof -
  obtain sr sg sb where S: "Sca = (sr, sg, sb)" using rgb_cases by blast
  obtain dr dg db where D: "Dca = (dr, dg, db)" using rgb_cases by blast
  have Dz: "Da = 0 \<Longrightarrow> dr = 0 \<and> dg = 0 \<and> db = 0"
    using assms(4) by (simp add: premultiplied_def D)
  show ?thesis
  proof (cases "Sa = 0")
    case True
    then show ?thesis
      by (simp add: blend_def rgb_add_def rgb_scale_def D algebra_simps)
  next
    case Sa: False
    show ?thesis
    proof (cases "f = 0")
      case True
      then show ?thesis
        by (simp add: blend_def rgb_add_def rgb_scale_def D S split: prod.splits)
    next
      case f: False
      show ?thesis
      proof (cases "Da = 0")
        case True
        then show ?thesis
          using Sa f Dz by (simp add: blend_def rgb_add_def rgb_scale_def D S)
      next
        case Da: False
        have arg: "rgb_div (rgb_scale f Sca) (f * Sa) = rgb_div Sca Sa"
          using f by (simp add: rgb_div_def rgb_scale_def S)
        obtain br bg bb where Bv: "B (rgb_div Sca Sa) (rgb_div Dca Da) = (br, bg, bb)"
          using rgb_cases by blast
        have L: "blend B (rgb_scale f Sca) Dca (f * Sa) Da =
                   rgb_add (rgb_add (rgb_scale (f * Sa * Da) (br, bg, bb))
                                    (rgb_scale (1 - Da) (rgb_scale f Sca)))
                           (rgb_scale (1 - f * Sa) Dca)"
          using Sa f Da by (simp add: blend_def arg Bv)
        have R: "blend B Sca Dca Sa Da =
                   rgb_add (rgb_add (rgb_scale (Sa * Da) (br, bg, bb)) (rgb_scale (1 - Da) Sca))
                           (rgb_scale (1 - Sa) Dca)"
          using Sa Da by (simp add: blend_def Bv)
        show ?thesis
          unfolding L R by (simp add: rgb_add_def rgb_scale_def D S algebra_simps)
      qed
    qed
  qed
qed

theorem blend_coverage_identity_witness:
  "(0::real) \<le> 3/10 \<and> (3/10::real) \<le> 1 \<and>
   premultiplied (1/5, 2/5, 0) (2/5) \<and> premultiplied (3/10, 0, 3/5) (3/5) \<and>
   blend multiply_B (rgb_scale (3/10) (1/5, 2/5, 0)) (3/10, 0, 3/5) (3/10 * (2/5)) (3/5) =
     rgb_add (rgb_scale (3/10) (blend multiply_B (1/5, 2/5, 0) (3/10, 0, 3/5) (2/5) (3/5)))
             (rgb_scale (1 - 3/10) (3/10, 0, 3/5))"
proof -
  have a: "(0::real) \<le> 3/10" "(3/10::real) \<le> 1" by simp_all
  have p: "premultiplied (1/5, 2/5, 0) (2/5)" "premultiplied (3/10, 0, 3/5) (3/5)"
    by (simp_all add: premultiplied_def)
  show ?thesis
    using a p blend_coverage_identity [OF a p, of multiply_B] by blast
qed

lemma blend_alpha_coverage: "blend_alpha (f * Sa) Da = f * blend_alpha Sa Da + (1 - f) * Da"
  by (simp add: blend_alpha_def algebra_simps)


end
